theory Spec2Isabelle
  imports Main
begin

section \<open>Python strings\<close>

text \<open>
  A Python \<open>str\<close> is modelled as a \<open>string\<close>; one \<open>char\<close> stands for one code point
  below 256. Only the string methods that \<open>wyze-bridge.py\<close> calls are modelled, each for
  the argument shapes the script uses (separators of one character).
\<close>

definition LF :: char where
  "LF = CHR 0x0A"

definition CR :: char where
  "CR = CHR 0x0D"

text \<open>\<open>s.startswith(p)\<close>\<close>

definition startswith :: "string \<Rightarrow> string \<Rightarrow> bool" where
  "startswith s p = (take (length p) s = p)"

text \<open>\<open>sub in s\<close>\<close>

fun contains :: "string \<Rightarrow> string \<Rightarrow> bool" where
  "contains sub [] = (sub = [])"
| "contains sub (c # cs) = (startswith (c # cs) sub \<or> contains sub cs)"

text \<open>\<open>s.split(sep)\<close> for a separator of one character: never the empty list.\<close>

fun py_split :: "char \<Rightarrow> string \<Rightarrow> string list" where
  "py_split sep [] = [[]]"
| "py_split sep (c # cs) =
     (if c = sep then [] # py_split sep cs
      else (case py_split sep cs of [] \<Rightarrow> [[c]] | x # xs \<Rightarrow> (c # x) # xs))"

text \<open>\<open>s.split(sep, maxsplit)\<close> with \<open>maxsplit \<ge> 0\<close>: at most \<open>maxsplit\<close> cuts, from the left.\<close>

fun py_splitn :: "char \<Rightarrow> nat \<Rightarrow> string \<Rightarrow> string list" where
  "py_splitn sep 0 s = [s]"
| "py_splitn sep (Suc n) [] = [[]]"
| "py_splitn sep (Suc n) (c # cs) =
     (if c = sep then [] # py_splitn sep n cs
      else (case py_splitn sep (Suc n) cs of [] \<Rightarrow> [[c]] | x # xs \<Rightarrow> (c # x) # xs))"

text \<open>\<open>s.lstrip(chars)\<close>, \<open>s.rstrip(chars)\<close>, \<open>s.strip(chars)\<close>: \<open>chars\<close> is a set of characters.\<close>

definition lstrip :: "string \<Rightarrow> string \<Rightarrow> string" where
  "lstrip chars s = dropWhile (\<lambda>c. c \<in> set chars) s"

definition rstrip :: "string \<Rightarrow> string \<Rightarrow> string" where
  "rstrip chars s = rev (dropWhile (\<lambda>c. c \<in> set chars) (rev s))"

definition strip :: "string \<Rightarrow> string \<Rightarrow> string" where
  "strip chars s = rstrip chars (lstrip chars s)"

text \<open>The characters \<open>str.isspace\<close> accepts below code point 256; \<open>s.strip()\<close> removes them.\<close>

definition whitespace :: string where
  "whitespace = [CHR 0x09, CHR 0x0A, CHR 0x0B, CHR 0x0C, CHR 0x0D, CHR 0x1C, CHR 0x1D,
                 CHR 0x1E, CHR 0x1F, CHR 0x20, CHR 0x85, CHR 0xA0]"

definition strip_ws :: "string \<Rightarrow> string" where
  "strip_ws s = strip whitespace s"

text \<open>
  Reading a file opened in text mode translates \<open>\r\n\<close> and a lone \<open>\r\<close> to \<open>\n\<close>
  (universal newlines); iterating it, or \<open>readlines()\<close>, yields the lines with their
  terminators kept.
\<close>

fun universal_newlines :: "string \<Rightarrow> string" where
  "universal_newlines [] = []"
| "universal_newlines [c] = (if c = CR then [LF] else [c])"
| "universal_newlines (c # d # ds) =
     (if c = CR then
        (if d = LF then LF # universal_newlines ds else LF # universal_newlines (d # ds))
      else c # universal_newlines (d # ds))"

fun keepends :: "string \<Rightarrow> string list" where
  "keepends [] = []"
| "keepends (c # cs) =
     (if c = LF then [LF] # keepends cs
      else (case keepends cs of [] \<Rightarrow> [[c]] | l # ls \<Rightarrow> (c # l) # ls))"

definition readlines :: "string \<Rightarrow> string list" where
  "readlines content = keepends (universal_newlines content)"

text \<open>\<open>os.path.join(a, b)\<close> on POSIX, for two components.\<close>

definition path_join :: "string \<Rightarrow> string \<Rightarrow> string" where
  "path_join a b =
     (if startswith b ''/'' then b
      else if a = [] \<or> last a = CHR ''/'' then a @ b
      else a @ ''/'' @ b)"

text \<open>\<open>xs[i]\<close> for \<open>i \<ge> 0\<close>: \<open>None\<close> where Python raises \<open>IndexError\<close>.\<close>

definition item :: "'a list \<Rightarrow> nat \<Rightarrow> 'a option" where
  "item xs i = (if i < length xs then Some (xs ! i) else None)"

section \<open>Effects: exceptions, exits, the filesystem and the trace\<close>

datatype exn_class =
  Exception | TypeError | UnboundLocalError | KeyError | IndexError | AttributeError
  | OSError | URLError | ReadError | JSONDecodeError | ArgumentTypeError

datatype exn = Exn exn_class string

fun str_exn :: "exn \<Rightarrow> string" where
  "str_exn (Exn c m) = m"

text \<open>
  Every call the script makes to the outside is one event of the trace, in program order:
  console output, HTTP requests, subprocesses and filesystem changes.
\<close>

datatype event =
    Print string string         \<comment> \<open>\<open>_print_color(message, color)\<close>\<close>
  | PrintPlain string           \<comment> \<open>\<open>print(message)\<close>\<close>
  | PrintStderr string          \<comment> \<open>\<open>print(message, file=sys.stderr)\<close>\<close>
  | UrlOpen string              \<comment> \<open>\<open>urllib.request.urlopen(url)\<close> of an API page\<close>
  | Download string             \<comment> \<open>\<open>download_file(url)\<close>: the artifact is fetched\<close>
  | Exec string                 \<comment> \<open>a shell command\<close>
  | Makedirs string             \<comment> \<open>\<open>os.makedirs(path, exist_ok=True)\<close>\<close>
  | TarCreate string string     \<comment> \<open>archive path, directory added to it\<close>
  | Chmod string nat            \<comment> \<open>\<open>os.chmod(path, mode)\<close>\<close>
  | Rmtree string               \<comment> \<open>\<open>shutil.rmtree(path)\<close>\<close>
  | Extract string string       \<comment> \<open>\<open>tar.extract(member, path)\<close>: destination, member name\<close>
  | WriteFile string string     \<comment> \<open>a file opened for writing: path, new content\<close>

text \<open>
  How a piece of the script ends: it returns, the process exits (\<open>sys.exit\<close>, which no
  \<open>except Exception\<close> catches), an exception propagates, or a loop has not stopped within
  the steps allowed.
\<close>

datatype 'a outcome = Return 'a | Exit nat | Raise exn | OutOfFuel

record world =
  files :: "string \<rightharpoonup> string"
  trace :: "event list"

type_synonym 'a prog = "world \<Rightarrow> 'a outcome \<times> world"

definition ret :: "'a \<Rightarrow> 'a prog" where
  "ret x w = (Return x, w)"

definition bind :: "'a prog \<Rightarrow> ('a \<Rightarrow> 'b prog) \<Rightarrow> 'b prog" where
  "bind m f w =
     (case m w of
        (Return x, w') \<Rightarrow> f x w'
      | (Exit n, w') \<Rightarrow> (Exit n, w')
      | (Raise e, w') \<Rightarrow> (Raise e, w')
      | (OutOfFuel, w') \<Rightarrow> (OutOfFuel, w'))"

definition seq :: "'a prog \<Rightarrow> 'b prog \<Rightarrow> 'b prog" where
  "seq m k = bind m (\<lambda>_. k)"

definition sys_exit :: "nat \<Rightarrow> 'a prog" where
  "sys_exit n w = (Exit n, w)"

definition raise :: "exn \<Rightarrow> 'a prog" where
  "raise e w = (Raise e, w)"

text \<open>\<open>try: m except Exception as e: h e\<close>\<close>

definition try_except :: "'a prog \<Rightarrow> (exn \<Rightarrow> 'a prog) \<Rightarrow> 'a prog" where
  "try_except m h w = (case m w of (Raise e, w') \<Rightarrow> h e w' | r \<Rightarrow> r)"

definition emit :: "event \<Rightarrow> unit prog" where
  "emit e w = (Return (), w\<lparr>trace := trace w @ [e]\<rparr>)"

definition COLOR_RED :: string where "COLOR_RED = ''31''"
definition COLOR_GREEN :: string where "COLOR_GREEN = ''32''"
definition COLOR_CYAN :: string where "COLOR_CYAN = ''36''"
definition COLOR_YELLOW :: string where "COLOR_YELLOW = ''33''"
definition COLOR_PURPLE :: string where "COLOR_PURPLE = ''35''"

definition print_color :: "string \<Rightarrow> string \<Rightarrow> unit prog" where
  "print_color message color = emit (Print message color)"

section \<open>The outside world\<close>

record release =
  r_name :: "string option"
  r_tag_name :: string
  r_url :: string

record asset =
  a_name :: string
  a_browser_download_url :: string

record release_info =
  ri_name :: "string option"
  ri_tag_name :: string
  ri_tarball_url :: string
  ri_assets :: "asset list option"

record member =
  m_name :: string
  m_isreg :: bool
  m_data :: string

text \<open>
  What a response holds: bytes that are neither JSON nor an archive, the JSON list of
  releases, the JSON object of one release (with the keys GitHub gives it), or a gzip tar
  archive with its members.
\<close>

datatype body =
  Garbage | JsonReleases "release list" | JsonRelease release_info | TarGz "member list"

record response =
  status :: nat
  link :: "string option"
  body :: body

text \<open>
  A value of a setting: what \<open>json.load\<close> can give for a key, or what the script assigns.
  \<open>POther s\<close> is any other JSON value, with the text \<open>str\<close> gives for it. A settings
  file decodes to an object (its keys and values, in order) or to another JSON value.
\<close>

datatype pyval = PNone | PBool bool | PInt int | PStr string | POther string

datatype json = JObject "(string \<times> pyval) list" | JOther

text \<open>
  The environment of one run. \<open>os_fails e\<close>: the operating-system call that would
  perform \<open>e\<close> raises instead. \<open>json_load\<close> is the JSON decoder on the text of a file. The
  server and the failures do not change during a run.
\<close>

record env =
  urlopen :: "string \<Rightarrow> exn + response"
  json_load :: "string \<Rightarrow> exn + json"
  os_fails :: "event \<Rightarrow> bool"
  run_version :: "string \<Rightarrow> exn + nat \<times> string"
  user_exists :: "string \<Rightarrow> bool"
  useradd_returncode :: nat
  expanduser :: "string \<Rightarrow> string"
  now :: string

definition os_call :: "env \<Rightarrow> event \<Rightarrow> unit prog" where
  "os_call env e w =
     (if os_fails env e then (Raise (Exn OSError ''operation failed''), w) else emit e w)"

text \<open>\<open>with open(path, 'w') as f: f.write(content)\<close>\<close>

definition write_file :: "env \<Rightarrow> string \<Rightarrow> string \<Rightarrow> unit prog" where
  "write_file env path content w =
     (if os_fails env (WriteFile path content) then (Raise (Exn OSError ''operation failed''), w)
      else (Return (), w\<lparr>files := (files w)(path \<mapsto> content),
                            trace := trace w @ [WriteFile path content]\<rparr>))"

section \<open>\<open>_FilesystemActions\<close>\<close>

text \<open>
  \<open>_exec_command\<close> catches the failure of the command itself and only prints it, so the
  call always returns. The command fails where \<open>os_fails\<close> holds of its \<open>Exec\<close> event; the
  exit status in the printed text is not modelled.
\<close>

definition exec_command :: "env \<Rightarrow> string \<Rightarrow> unit prog" where
  "exec_command env command =
     seq (emit (Exec command))
       (if os_fails env (Exec command)
        then print_color (''Error: '' @ ''Command '' @ command @ '' returned non-zero exit status.'') COLOR_RED
        else ret ())"

definition chmod :: "env \<Rightarrow> string \<Rightarrow> nat \<Rightarrow> unit prog" where
  "chmod env path mode =
     try_except (os_call env (Chmod path mode))
       (\<lambda>e. seq (print_color (''Error changing mode: '' @ str_exn e) COLOR_RED) (sys_exit 1))"

definition chown :: "env \<Rightarrow> string \<Rightarrow> string \<Rightarrow> string \<Rightarrow> unit prog" where
  "chown env path user grp =
     try_except (exec_command env (''chown -R '' @ user @ '':'' @ grp @ '' '' @ path))
       (\<lambda>e. seq (print_color (''Error changing ownership: '' @ str_exn e) COLOR_RED) (sys_exit 1))"

text \<open>\<open>tar.extract(member, path)\<close>: a regular member becomes a file below \<open>path\<close>.\<close>

definition tar_extract :: "env \<Rightarrow> member \<Rightarrow> string \<Rightarrow> unit prog" where
  "tar_extract env m path w =
     (if os_fails env (Extract path (m_name m)) then (Raise (Exn OSError ''operation failed''), w)
      else (Return (),
            w\<lparr>files := (if m_isreg m then (files w)(path_join path (m_name m) \<mapsto> m_data m)
                          else files w),
              trace := trace w @ [Extract path (m_name m)]\<rparr>))"

text \<open>The loop of \<open>extract_tarball\<close> over \<open>tar.getmembers()\<close>; \<open>strip_dirs \<ge> 0\<close>.\<close>

fun extract_members ::
  "env \<Rightarrow> member list \<Rightarrow> string \<Rightarrow> string option \<Rightarrow> nat \<Rightarrow> unit prog" where
  "extract_members env [] path file_name_contains strip_dirs w = (Return (), w)"
| "extract_members env (m # ms) path file_name_contains strip_dirs w =
     (case file_name_contains of
        Some f \<Rightarrow>
          (if contains f (m_name m) then
             (case tar_extract env
                     (if strip_dirs \<noteq> 0
                      then m\<lparr>m_name := last (py_splitn (CHR ''/'') strip_dirs (m_name m))\<rparr>
                      else m) path w of
                (Return u, w') \<Rightarrow> extract_members env ms path file_name_contains strip_dirs w'
              | r \<Rightarrow> r)
           else extract_members env ms path file_name_contains strip_dirs w)
      | None \<Rightarrow>
          (case tar_extract env m path w of
             (Return u, w') \<Rightarrow> extract_members env ms path file_name_contains strip_dirs w'
           | r \<Rightarrow> r))"

definition extract_tarball ::
  "env \<Rightarrow> body \<Rightarrow> string \<Rightarrow> string option \<Rightarrow> nat \<Rightarrow> unit prog" where
  "extract_tarball env tar_data path file_name_contains strip_dirs =
     (case tar_data of
        TarGz members \<Rightarrow> extract_members env members path file_name_contains strip_dirs
      | _ \<Rightarrow> raise (Exn ReadError ''not a gzip file''))"

text \<open>
  The path a member would have with its first \<open>n\<close> slash-delimited segments removed, in
  the words of the specification.
\<close>

definition join_slash :: "string list \<Rightarrow> string" where
  "join_slash segs = (case segs of [] \<Rightarrow> [] | s # ss \<Rightarrow> s @ concat (map (\<lambda>t. CHR ''/'' # t) ss))"

definition drop_segments :: "nat \<Rightarrow> string \<Rightarrow> string" where
  "drop_segments n name = join_slash (drop n (py_split (CHR ''/'') name))"

section \<open>The environment file of the installation\<close>

text \<open>
  The loop of \<open>update_env_file\<close>: the first line that starts with \<open>key=\<close> is replaced and
  the loop stops. Returns the new lines and the line that was replaced, if any.
\<close>

fun env_loop :: "string \<Rightarrow> string \<Rightarrow> string list \<Rightarrow> string list \<times> string option" where
  "env_loop key new_line [] = ([], None)"
| "env_loop key new_line (line # rest) =
     (if startswith line (key @ ''='') then (new_line # rest, Some line)
      else (case env_loop key new_line rest of (rest', old) \<Rightarrow> (line # rest', old)))"

definition update_env_file :: "env \<Rightarrow> string \<Rightarrow> string \<Rightarrow> string \<Rightarrow> unit prog" where
  "update_env_file env env_file key val =
     try_except
       (\<lambda>w. case files w env_file of
          None \<Rightarrow>
            seq (print_color (''Error: .env file not found at '' @ env_file) COLOR_RED)
              (sys_exit 1) w
        | Some content \<Rightarrow>
            (case env_loop key (key @ ''='' @ val @ [LF]) (readlines content) of
               (env_content, None) \<Rightarrow>
                 write_file env env_file (concat (env_content @ [key @ ''='' @ val @ [LF]])) w
             | (env_content, Some line) \<Rightarrow>
                 (case item (py_split (CHR ''='') line) 1 of
                    None \<Rightarrow> raise (Exn IndexError ''list index out of range'') w
                  | Some old \<Rightarrow>
                      seq (if strip_ws old \<noteq> val
                           then print_color (''Updating '' @ env_file @ '': '' @ key @ '' from: ''
                                             @ strip_ws old @ '' to: '' @ val) COLOR_YELLOW
                           else ret ())
                        (write_file env env_file (concat env_content)) w)))
       (\<lambda>e. seq (print_color (''Error updating .env file: '' @ str_exn e) COLOR_RED) (sys_exit 1))"

text \<open>The loop of \<open>get_installed_dwb_version\<close> over the lines of the file.\<close>

fun version_scan :: "string list \<Rightarrow> string option prog" where
  "version_scan [] w = (Return None, w)"
| "version_scan (line # rest) w =
     (if startswith line ''VERSION'' then
        (case item (py_split (CHR ''='') line) 1 of
           None \<Rightarrow> (Raise (Exn IndexError ''list index out of range''), w)
         | Some v \<Rightarrow> (Return (Some (strip_ws v)), w))
      else version_scan rest w)"

definition get_installed_dwb_version :: "string \<Rightarrow> string option prog" where
  "get_installed_dwb_version env_file w =
     (case files w env_file of
        None \<Rightarrow> (Return None, w)
      | Some content \<Rightarrow> version_scan (readlines content) w)"

section \<open>Auxiliary notions for statements and proofs\<close>

text \<open>
  The lines \<open>update_env_file\<close> writes back, from the lines it read: the result of its loop,
  with the new line appended when no line was replaced.
\<close>

definition upsert_lines :: "string \<Rightarrow> string \<Rightarrow> string list \<Rightarrow> string list" where
  "upsert_lines key new_line ls =
     (case env_loop key new_line ls of
        (ls', None) \<Rightarrow> ls' @ [new_line]
      | (ls', Some old) \<Rightarrow> ls')"

text \<open>A line that ends with its only line feed; lines as \<open>readlines\<close> gives them.\<close>

definition terminated :: "string \<Rightarrow> bool" where
  "terminated l = (l \<noteq> [] \<and> last l = LF \<and> LF \<notin> set (butlast l))"

fun wf_lines :: "string list \<Rightarrow> bool" where
  "wf_lines [] = True"
| "wf_lines [l] = (l \<noteq> [] \<and> LF \<notin> set (butlast l))"
| "wf_lines (l # l' # ls) = (terminated l \<and> wf_lines (l' # ls))"

text \<open>
  An environment for examples: every operating-system call succeeds, the service user
  exists, and nothing can be fetched or run.
\<close>

definition quiet_env :: env where
  "quiet_env =
     \<lparr>urlopen = (\<lambda>u. Inl (Exn URLError ''unreachable'')),
      json_load = (\<lambda>s. Inl (Exn JSONDecodeError ''Expecting value'')),
      os_fails = (\<lambda>e. False),
      run_version = (\<lambda>b. Inl (Exn OSError ''cannot run'')),
      user_exists = (\<lambda>u. True),
      useradd_returncode = 0,
      expanduser = (\<lambda>u. ''/home/'' @ drop 1 u),
      now = ''20240101-0000''\<rparr>"

text \<open>An archive for examples, laid out as a GitHub source tarball is.\<close>

definition example_members :: "member list" where
  "example_members =
     [\<lparr>m_name = ''repo/app/frontend.py'', m_isreg = True, m_data = ''import flask''\<rparr>,
      \<lparr>m_name = ''repo/README.md'', m_isreg = True, m_data = ''readme''\<rparr>,
      \<lparr>m_name = ''repo/app/lib/x'', m_isreg = True, m_data = ''x''\<rparr>]"

section \<open>\<open>_Github\<close>: the release resolver\<close>

text \<open>\<open>str(n)\<close> for a natural number.\<close>

fun str_nat :: "nat \<Rightarrow> string" where
  "str_nat n =
     (if n < 10 then [char_of (48 + n)]
      else str_nat (n div 10) @ [char_of (48 + n mod 10)])"

declare str_nat.simps [simp del]

record github =
  repo_name :: string
  api_url :: string

definition Github :: "string \<Rightarrow> string \<Rightarrow> github" where
  "Github author repo =
     \<lparr>repo_name = repo, api_url = ''https://api.github.com/repos/'' @ author @ ''/'' @ repo\<rparr>"

text \<open>\<open>urllib.request.urlopen(url)\<close>: the request is made, then it answers or raises.\<close>

definition url_open :: "env \<Rightarrow> string \<Rightarrow> response prog" where
  "url_open env url =
     seq (emit (UrlOpen url))
       (case urlopen env url of Inl e \<Rightarrow> raise e | Inr response \<Rightarrow> ret response)"

text \<open>\<open>download_file\<close>: any failure is printed to standard error and ends the process.\<close>

definition download_file :: "env \<Rightarrow> github \<Rightarrow> string \<Rightarrow> body prog" where
  "download_file env g url =
     try_except
       (seq (emit (Download url))
          (case urlopen env url of
             Inl e \<Rightarrow> raise e
           | Inr response \<Rightarrow>
               if status response \<noteq> 200
               then raise (Exn Exception (''Error: HTTP '' @ str_nat (status response)))
               else ret (body response)))
       (\<lambda>e. seq (emit (PrintStderr (''['' @ repo_name g @ ''] Error downloading file: '' @ str_exn e)))
              (sys_exit 1))"

text \<open>
  The test of the loop in \<open>fetch_release_url\<close>, \<open>"next" in response.headers.get('link', '')\<close>,
  and the address it follows,
  \<open>response.headers['link'].split(',')[0].split(';')[0].strip('<> ')\<close>: the first address
  of the header, whatever its \<open>rel\<close>. Without a header the latter has no value (Python
  raises \<open>AttributeError\<close>).
\<close>

definition has_next :: "response \<Rightarrow> bool" where
  "has_next response = contains ''next'' (case link response of None \<Rightarrow> [] | Some l \<Rightarrow> l)"

definition next_link :: "response \<Rightarrow> string option" where
  "next_link response =
     (case link response of
        None \<Rightarrow> None
      | Some l \<Rightarrow> Some (strip ''<> '' (hd (py_split (CHR '';'') (hd (py_split (CHR '','') l))))))"

text \<open>
  \<open>release["name"] == version or release["tag_name"] in [version, f"v{version}"]\<close>
\<close>

definition release_matches :: "string \<Rightarrow> release \<Rightarrow> bool" where
  "release_matches version release =
     (r_name release = Some version \<or> r_tag_name release \<in> set [version, ''v'' @ version])"

text \<open>
  The \<open>while\<close> loop of \<open>fetch_release_url\<close>. Each test of its condition takes one unit of
  fuel; \<open>OutOfFuel\<close> stands for a loop that has not stopped. A page is scanned only when
  its header names a next page; a body that is not a JSON list of releases raises.
\<close>

fun scan_pages :: "nat \<Rightarrow> env \<Rightarrow> github \<Rightarrow> string \<Rightarrow> response \<Rightarrow> string prog" where
  "scan_pages 0 env g version response w = (OutOfFuel, w)"
| "scan_pages (Suc fuel) env g version response w =
     (if has_next response then
        (case body response of
           JsonReleases releases \<Rightarrow>
             (case find (release_matches version) releases of
                Some release \<Rightarrow> (Return (r_url release), w)
              | None \<Rightarrow>
                  (case next_link response of
                     None \<Rightarrow> (Raise (Exn AttributeError ''NoneType has no attribute split''), w)
                   | Some url \<Rightarrow>
                       (case url_open env url w of
                          (Return response', w') \<Rightarrow> scan_pages fuel env g version response' w'
                        | (Exit n, w') \<Rightarrow> (Exit n, w')
                        | (Raise e, w') \<Rightarrow> (Raise e, w')
                        | (OutOfFuel, w') \<Rightarrow> (OutOfFuel, w'))))
         | JsonRelease info \<Rightarrow> (Raise (Exn TypeError ''string indices must be integers''), w)
         | Garbage \<Rightarrow> (Raise (Exn JSONDecodeError ''Expecting value''), w)
         | TarGz ms \<Rightarrow> (Raise (Exn JSONDecodeError ''Expecting value''), w))
      else (Raise (Exn Exception (''['' @ repo_name g @ ''] Unable to locate release: '' @ version)), w))"

text \<open>
  \<open>fetch_release_url\<close>. The text of a response with a status other than 200 is left out
  of the message printed before \<open>sys.exit(2)\<close>.
\<close>

definition fetch_release_url :: "nat \<Rightarrow> env \<Rightarrow> github \<Rightarrow> string \<Rightarrow> string prog" where
  "fetch_release_url fuel env g version =
     (if version = ''latest'' then ret (api_url g @ ''/releases/latest'')
      else
        try_except
          (bind (url_open env (api_url g @ ''/releases''))
             (\<lambda>response.
                if status response \<noteq> 200 then
                  seq (print_color (''['' @ repo_name g @ ''] Error fetching release info: ''
                                    @ str_nat (status response) @ '' - '') COLOR_RED)
                    (sys_exit 2)
                else scan_pages fuel env g version response))
          (\<lambda>e. seq (print_color (''['' @ repo_name g @ ''] Error locating release URL: '' @ str_exn e)
                       COLOR_RED)
                 (sys_exit 1)))"

text \<open>The dictionary \<open>get_release\<close> returns.\<close>

record descriptor =
  tag_name :: string
  tarball :: string

text \<open>\<open>str(x)\<close> of a JSON string or \<open>null\<close>.\<close>

definition str_opt :: "string option \<Rightarrow> string" where
  "str_opt x = (case x of None \<Rightarrow> ''None'' | Some s \<Rightarrow> s)"

text \<open>
  \<open>get_release\<close>. With assets and a non-empty pattern the first asset whose name contains
  the pattern is returned, and when the loop finds none the function falls off its end:
  the result is \<open>None\<close>. A JSON list in place of the release object raises \<open>TypeError\<close> at
  the first subscript.
\<close>

definition get_release ::
  "nat \<Rightarrow> env \<Rightarrow> github \<Rightarrow> string \<Rightarrow> string option \<Rightarrow> bool \<Rightarrow> descriptor option prog" where
  "get_release fuel env g version asset_pattern debug =
     bind (fetch_release_url fuel env g version)
       (\<lambda>release_url.
          try_except
            (bind (url_open env release_url)
               (\<lambda>response.
                  case body response of
                    JsonRelease release_info \<Rightarrow>
                      seq (if debug
                           then emit (PrintPlain (''['' @ repo_name g @ ''] Found release: ''
                                                  @ str_opt (ri_name release_info)))
                           else ret ())
                        (case (ri_assets release_info, asset_pattern) of
                           (Some assets, Some pattern) \<Rightarrow>
                             if pattern \<noteq> [] then
                               (case find (\<lambda>asset. contains pattern (a_name asset)) assets of
                                  Some asset \<Rightarrow>
                                    ret (Some \<lparr>tag_name = ri_tag_name release_info,
                                               tarball = a_browser_download_url asset\<rparr>)
                                | None \<Rightarrow> ret None)
                             else ret (Some \<lparr>tag_name = ri_tag_name release_info,
                                             tarball = ri_tarball_url release_info\<rparr>)
                         | _ \<Rightarrow> ret (Some \<lparr>tag_name = ri_tag_name release_info,
                                          tarball = ri_tarball_url release_info\<rparr>))
                  | JsonReleases releases \<Rightarrow>
                      raise (Exn TypeError ''list indices must be integers or slices, not str'')
                  | Garbage \<Rightarrow> raise (Exn JSONDecodeError ''Expecting value'')
                  | TarGz ms \<Rightarrow> raise (Exn JSONDecodeError ''Expecting value'')))
            (\<lambda>e. case e of
                   Exn JSONDecodeError m \<Rightarrow>
                     seq (print_color (''['' @ repo_name g @ ''] Error decoding JSON response: '' @ m)
                            COLOR_RED)
                       (seq (print_color (''['' @ repo_name g @ ''] Response content: '') COLOR_RED)
                          (sys_exit 1))
                 | _ \<Rightarrow>
                     seq (print_color (''['' @ repo_name g @ ''] Unexpected error: '' @ str_exn e)
                            COLOR_RED)
                       (sys_exit 1)))"

section \<open>Pagination chains and example servers\<close>



text \<open>
  Example servers: a listing of one page without a link header; a listing of two pages
  (the quotes GitHub puts around \<open>next\<close> are left out); a latest release with one asset.
\<close>

definition one_page_env :: env where
  "one_page_env = quiet_env
     \<lparr>urlopen := (\<lambda>u.
        if u = ''https://api.github.com/repos/o/r/releases'' then
          Inr \<lparr>status = 200, link = None,
               body = JsonReleases
                 [\<lparr>r_name = Some ''v1.0'', r_tag_name = ''v1.0'',
                   r_url = ''https://api.github.com/repos/o/r/releases/1''\<rparr>]\<rparr>
        else Inl (Exn URLError ''unreachable''))\<rparr>"

definition two_page_env :: env where
  "two_page_env = quiet_env
     \<lparr>urlopen := (\<lambda>u.
        if u = ''https://api.github.com/repos/o/r/releases'' then
          Inr \<lparr>status = 200,
               link = Some ''<https://api.github.com/repos/o/r/releases?page=2>; rel=next'',
               body = JsonReleases
                 [\<lparr>r_name = Some ''v2.0'', r_tag_name = ''v2.0'',
                   r_url = ''https://api.github.com/repos/o/r/releases/2''\<rparr>]\<rparr>
        else if u = ''https://api.github.com/repos/o/r/releases?page=2'' then
          Inr \<lparr>status = 200,
               link = Some ''<https://api.github.com/repos/o/r/releases?page=1>; rel=prev'',
               body = JsonReleases
                 [\<lparr>r_name = Some ''v1.0'', r_tag_name = ''v1.0'',
                   r_url = ''https://api.github.com/repos/o/r/releases/1''\<rparr>]\<rparr>
        else Inl (Exn URLError ''unreachable''))\<rparr>"

definition asset_env :: env where
  "asset_env = quiet_env
     \<lparr>urlopen := (\<lambda>u.
        if u = ''https://api.github.com/repos/homebridge/ffmpeg-for-homebridge/releases/latest'' then
          Inr \<lparr>status = 200, link = None,
               body = JsonRelease
                 \<lparr>ri_name = Some ''v2.1.1'', ri_tag_name = ''v2.1.1'',
                  ri_tarball_url = ''https://api.github.com/repos/homebridge/ffmpeg-for-homebridge/tarball/v2.1.1'',
                  ri_assets = Some
                    [\<lparr>a_name = ''ffmpeg-alpine-arm64.tar.gz'',
                      a_browser_download_url = ''https://github.com/homebridge/ffmpeg-for-homebridge/releases/download/v2.1.1/ffmpeg-alpine-arm64.tar.gz''\<rparr>]\<rparr>\<rparr>
        else Inl (Exn URLError ''unreachable''))\<rparr>"

section \<open>\<open>_Config\<close> and the start of the main block\<close>

text \<open>\<open>str(value)\<close> of a setting.\<close>

definition str_int :: "int \<Rightarrow> string" where
  "str_int i = (if i < 0 then CHR ''-'' # str_nat (nat (- i)) else str_nat (nat i))"

fun str_val :: "pyval \<Rightarrow> string" where
  "str_val PNone = ''None''"
| "str_val (PBool b) = (if b then ''True'' else ''False'')"
| "str_val (PInt i) = str_int i"
| "str_val (PStr s) = s"
| "str_val (POther s) = s"

text \<open>\<open>s.lower()\<close> on code points below 256.\<close>

definition lower_char :: "char \<Rightarrow> char" where
  "lower_char c =
     (if (65 \<le> (of_char c :: nat) \<and> (of_char c :: nat) \<le> 90)
         \<or> (192 \<le> (of_char c :: nat) \<and> (of_char c :: nat) \<le> 222 \<and> (of_char c :: nat) \<noteq> 215)
      then char_of ((of_char c :: nat) + 32) else c)"

definition lower :: "string \<Rightarrow> string" where
  "lower s = map lower_char s"

text \<open>\<open>_str2bool\<close> on a string: \<open>None\<close> where it raises \<open>ArgumentTypeError\<close>.\<close>

definition str2bool :: "string \<Rightarrow> bool option" where
  "str2bool v =
     (if lower v \<in> set [''yes'', ''true'', ''t'', ''y'', ''1''] then Some True
      else if lower v \<in> set [''no'', ''false'', ''f'', ''n'', ''0''] then Some False
      else None)"

text \<open>
  The attributes of the \<open>_Config\<close> object, \<open>self.__dict__\<close>, in insertion order.
  \<open>setattr\<close> keeps the place of a key that exists and appends a new one.
\<close>

type_synonym config = "(string \<times> pyval) list"

fun setattr :: "config \<Rightarrow> string \<Rightarrow> pyval \<Rightarrow> config" where
  "setattr [] key v = [(key, v)]"
| "setattr ((k, x) # rest) key v =
     (if k = key then (k, v) # rest else (k, x) # setattr rest key v)"

definition Config_defaults :: config where
  "Config_defaults =
     [(''APP_CONF'', PStr ''/etc/wyze-bridge/app.env''),
      (''APP_GUNICORN'', PBool False),
      (''APP_IP'', PStr ''0.0.0.0''),
      (''APP_PATH'', PStr ''/srv/wyze-bridge''),
      (''APP_PORT'', PInt 5000),
      (''APP_USER'', PStr ''wyze''),
      (''APP_VERSION'', PStr ''latest''),
      (''MEDIA_MTX_VERSION'', PStr ''latest''),
      (''MEDIA_MTX_PATH'', PStr ''/srv/mediamtx''),
      (''INSTALLATION_CONF'', PStr ''/etc/wyze-bridge/install.json'')]"

text \<open>\<open>get_description\<close>: \<open>None\<close> where the dictionary lookup raises \<open>KeyError\<close>.\<close>

definition get_description :: "string \<Rightarrow> string option" where
  "get_description name =
     map_of
       [(''APP_CONF'', ''Path to env file containing docker-wyze-bridge settings.''),
        (''APP_IP'', ''IP address on which docker-wyze-bridge will listen.''),
        (''APP_PATH'', ''Location of docker-wyze-bridge application.''),
        (''APP_PORT'', ''Port on which docker-wyze-bridge will listen.''),
        (''APP_USER'', ''User account used to run the docker-wyze-bridge.''),
        (''APP_VERSION'', ''Version of docker-wyze-bridge to install.''),
        (''APP_GUNICORN'', ''Use Gunicorn for frontend service.''),
        (''MEDIA_MTX_VERSION'', ''Version of mediamtx to install.''),
        (''MEDIA_MTX_PATH'', ''Location of mediamtx application.''),
        (''INSTALLATION_CONF'',
         ''Path to file containing settings of this script, used for updates.'')]
       name"

text \<open>
  A call \<open>_print_color(message, color)\<close> as written at the call site: with its second
  argument, or without it, where Python raises \<open>TypeError\<close> before anything is printed.
\<close>

definition call_print_color :: "string \<Rightarrow> string option \<Rightarrow> unit prog" where
  "call_print_color message color =
     (case color of
        None \<Rightarrow>
          raise (Exn TypeError ''_print_color() missing 1 required positional argument: color'')
      | Some c \<Rightarrow> print_color message c)"

text \<open>
  \<open>read_config_file\<close>. The handler of the bare \<open>except\<close> calls \<open>_print_color\<close> with one
  argument; the loop after it reads \<open>install_conf\<close>, which the failed \<open>try\<close> has not bound.
  A decoded value that is no object has no \<open>items\<close>. A path that is not a string is no file.
\<close>

definition read_config_file :: "env \<Rightarrow> config \<Rightarrow> config prog" where
  "read_config_file env self =
     (case map_of self ''INSTALLATION_CONF'' of
        Some (PStr path) \<Rightarrow>
          (\<lambda>w. case files w path of
             None \<Rightarrow> (Return self, w)
           | Some content \<Rightarrow>
               (case json_load env content of
                  Inl e \<Rightarrow>
                    seq (call_print_color (''Unexpected error reading from: '' @ path) None)
                      (raise (Exn UnboundLocalError
                         ''cannot access local variable install_conf where it is not associated with a value''))
                      w
                | Inr (JObject items) \<Rightarrow>
                    (Return (foldl (\<lambda>d (key, v). setattr d key v) self items), w)
                | Inr JOther \<Rightarrow>
                    (Raise (Exn AttributeError ''object has no attribute items''), w)))
      | _ \<Rightarrow> ret self)"

definition Config_init :: "env \<Rightarrow> config prog" where
  "Config_init env = read_config_file env Config_defaults"

text \<open>
  One run of the script: the effective user id, \<open>sys.version_info[:3]\<close>, the action and
  the \<open>--KEY value\<close> flags of the command line, each under its full name.
\<close>

datatype action = Install | Update | ShowSettings

record invocation =
  euid :: nat
  version_info :: "nat \<times> nat \<times> nat"
  action :: action
  flags :: "(string \<times> string) list"

text \<open>What \<open>parse_args\<close> returns: the action, and for every declared flag its value or \<open>None\<close>.\<close>

record args =
  act :: action
  opts :: "(string \<times> string option) list"

definition is_root :: "invocation \<Rightarrow> unit prog" where
  "is_root iv =
     (if euid iv \<noteq> 0
      then seq (print_color ''This script must be run as root.'' COLOR_RED) (sys_exit 1)
      else ret ())"

text \<open>\<open>python_version\<close>: \<open>current_version < (3, 10)\<close> compares tuples lexicographically.\<close>

definition python_version :: "invocation \<Rightarrow> unit prog" where
  "python_version iv =
     (case version_info iv of
        (major, minor, micro) \<Rightarrow>
          if major < 3 \<or> (major = 3 \<and> minor < 10) then
            seq (emit (PrintPlain (CHR 0x1B # ''[0;31mError: Python version must be 3.10 or higher. ''
                   @ ''Current version is '' @ str_nat major @ ''.'' @ str_nat minor @ ''.''
                   @ str_nat micro @ ''.'' @ CHR 0x1B # ''[0m'')))
              (sys_exit 1)
          else ret ())"

text \<open>\<open>create_arguments\<close> declares one flag for every attribute that has a description.\<close>

definition create_arguments :: "config \<Rightarrow> string list" where
  "create_arguments self = filter (\<lambda>key. get_description key \<noteq> None) (map fst self)"

text \<open>
  \<open>parser.parse_args()\<close>: a flag that was not declared ends the process with status 2; a
  flag given twice keeps its last value.
\<close>

definition parse_args :: "string list \<Rightarrow> invocation \<Rightarrow> args prog" where
  "parse_args declared iv =
     (if list_all (\<lambda>(key, v). key \<in> set declared) (flags iv)
      then ret \<lparr>act = action iv,
                opts = map (\<lambda>key. (key, map_of (rev (flags iv)) key)) declared\<rparr>
      else seq (emit (PrintStderr ''error: unrecognized arguments'')) (sys_exit 2))"

text \<open>
  The loop of \<open>parse_arguments\<close> over \<open>self.__dict__.items()\<close>; \<open>args.__dict__[key]\<close> raises
  \<open>KeyError\<close> for an attribute that has no flag.
\<close>

fun parse_loop :: "(string \<times> string option) list \<Rightarrow> (string \<times> pyval) list \<Rightarrow> config \<Rightarrow> exn + config" where
  "parse_loop os [] self = Inr self"
| "parse_loop os ((key, v) # rest) self =
     (case map_of os key of
        None \<Rightarrow> Inl (Exn KeyError key)
      | Some None \<Rightarrow> parse_loop os rest self
      | Some (Some arg) \<Rightarrow>
          if v \<noteq> PStr arg then
            (if key = ''APP_GUNICORN'' then
               (case str2bool arg of
                  None \<Rightarrow> Inl (Exn ArgumentTypeError ''Boolean value expected.'')
                | Some b \<Rightarrow> parse_loop os rest (setattr self key (PBool b)))
             else parse_loop os rest (setattr self key (PStr arg)))
          else parse_loop os rest self)"

definition parse_arguments :: "env \<Rightarrow> config \<Rightarrow> args \<Rightarrow> config prog" where
  "parse_arguments env self a =
     bind (case map_of (opts a) ''INSTALLATION_CONF'' of
             None \<Rightarrow> raise (Exn AttributeError ''Namespace object has no attribute INSTALLATION_CONF'')
           | Some None \<Rightarrow> ret self
           | Some (Some path) \<Rightarrow>
               read_config_file env (setattr self ''INSTALLATION_CONF'' (PStr path)))
       (\<lambda>self1.
          case parse_loop (opts a) self1 self1 of
            Inl e \<Rightarrow> raise e
          | Inr self2 \<Rightarrow>
              (case map_of (opts a) ''APP_VERSION'' of
                 None \<Rightarrow>
                   if act a = Update
                   then raise (Exn AttributeError ''Namespace object has no attribute APP_VERSION'')
                   else ret self2
               | Some x \<Rightarrow>
                   if act a = Update \<and> x = None
                   then ret (setattr self2 ''APP_VERSION'' (PStr ''latest''))
                   else ret self2))"

text \<open>The loop of the \<open>show-settings\<close> action.\<close>

fun show_settings :: "config \<Rightarrow> unit prog" where
  "show_settings [] = ret ()"
| "show_settings ((key, v) # rest) =
     (case get_description key of
        None \<Rightarrow> show_settings rest
      | Some desc \<Rightarrow>
          seq (print_color (''# '' @ desc) COLOR_CYAN)
            (seq (print_color (key @ '' = '' @ str_val v @ [LF]) COLOR_GREEN)
               (show_settings rest)))"

text \<open>
  The main block up to the end of the \<open>show-settings\<close> branch (lines 735 to 756). It
  returns the configuration where the script goes on to \<open>write_config_file\<close>.
\<close>

definition main_prologue :: "env \<Rightarrow> invocation \<Rightarrow> config prog" where
  "main_prologue env iv =
     seq (is_root iv)
       (seq (python_version iv)
          (bind (Config_init env)
             (\<lambda>scriptConfig.
                bind (parse_args (create_arguments scriptConfig) iv)
                  (\<lambda>a.
                     bind (parse_arguments env scriptConfig a)
                       (\<lambda>scriptConfig.
                          if act a = ShowSettings
                          then seq (show_settings scriptConfig) (sys_exit 0)
                          else ret scriptConfig)))))"

section \<open>Notions for the settings display\<close>

text \<open>
  Console output; a program that only prints (no file changes, and every event it adds to
  the trace is console output); a settings file that is absent or decodes to an object of
  documented keys; flags that are documented, with a boolean word for \<open>APP_GUNICORN\<close> and
  a usable file for \<open>INSTALLATION_CONF\<close>; and the lines \<open>show-settings\<close> prints for a
  configuration.
\<close>

fun is_print :: "event \<Rightarrow> bool" where
  "is_print (Print m c) = True"
| "is_print (PrintPlain m) = True"
| "is_print (PrintStderr m) = True"
| "is_print e = False"

definition prints_only :: "'a prog \<Rightarrow> bool" where
  "prints_only m =
     (\<forall>w. files (snd (m w)) = files w
          \<and> (\<exists>es. trace (snd (m w)) = trace w @ es \<and> list_all is_print es))"





section \<open>\<open>_WyzeBridgeInstallation\<close> and the update\<close>

text \<open>
  The installation object. \<open>user_home\<close>, \<open>service_user\<close> and \<open>venv_path\<close> are attributes
  the constructor does not set; the update assigns each before it reads it, and until
  then they are modelled as empty.
\<close>

record installation =
  wb_version :: string
  wb_install_path :: string
  wb_env_file :: string
  wb_installed :: bool
  wb_user_home :: string
  wb_service_user :: string
  wb_venv_path :: string

definition WyzeBridgeInstallation :: "string \<Rightarrow> string \<Rightarrow> installation prog" where
  "WyzeBridgeInstallation path ver w =
     (Return \<lparr>wb_version = ver, wb_install_path = path, wb_env_file = path_join path ''.env'',
              wb_installed = (files w (path_join path ''frontend.py'') \<noteq> None),
              wb_user_home = [], wb_service_user = [], wb_venv_path = []\<rparr>, w)"

text \<open>\<open>create_service_user\<close>: the account is created when \<open>getpwnam\<close> does not find it.\<close>

definition create_service_user :: "env \<Rightarrow> installation \<Rightarrow> string \<Rightarrow> installation prog" where
  "create_service_user env self user_name =
     seq (if user_exists env user_name then ret ()
          else
            seq (print_color (''User '' @ user_name @ '' doesn'' @ [CHR 0x27]
                              @ ''t exist. Creating system account.'') COLOR_YELLOW)
              (seq (emit (Exec ''useradd''))
                 (if useradd_returncode env = 127 then
                    seq (exec_command env (''addgroup -S '' @ user_name))
                      (exec_command env (''adduser -S -G '' @ user_name @ '' -h /home/'' @ user_name
                                         @ '' -s /bin/ash '' @ user_name))
                  else
                    exec_command env
                      (''useradd --system --create-home --user-group --home-dir /home/''
                       @ user_name @ '' --shell /usr/bin/bash '' @ user_name))))
       (ret (self\<lparr>wb_user_home := expanduser env (''~'' @ user_name),
                   wb_service_user := user_name\<rparr>))"

text \<open>
  The body of the loop of \<open>backup\<close> for one directory, and \<open>backup\<close>: the loop runs over
  the install path and \<open>/tokens\<close>, in this order. \<open>0o600\<close> is 384. A failure to create the
  directory or an archive is not caught.
\<close>

definition backup_dir :: "env \<Rightarrow> string \<Rightarrow> string \<Rightarrow> unit prog" where
  "backup_dir env output_path dir_name =
     seq (print_color (''Backing up '' @ dir_name @ '' to: '' @ output_path @ ''-''
                       @ last (py_split (CHR ''/'') dir_name) @ ''.tgz'') COLOR_CYAN)
       (seq (os_call env (TarCreate (output_path @ ''-'' @ last (py_split (CHR ''/'') dir_name)
                                     @ ''.tgz'') dir_name))
          (chmod env (output_path @ ''-'' @ last (py_split (CHR ''/'') dir_name) @ ''.tgz'') 384))"

definition backup :: "env \<Rightarrow> installation \<Rightarrow> string \<Rightarrow> unit prog" where
  "backup env self output_path =
     seq (os_call env (Makedirs (path_join (wb_user_home self) ''wyze-backups'')))
       (seq (backup_dir env output_path (wb_install_path self))
          (seq (backup_dir env output_path ''/tokens'')
             (chown env (path_join (wb_user_home self) ''wyze-backups'')
                (wb_service_user self) (wb_service_user self))))"

text \<open>\<open>shutil.rmtree(path)\<close>: every file below the directory is gone.\<close>

definition below :: "string \<Rightarrow> string \<Rightarrow> bool" where
  "below dir p = startswith p (if dir \<noteq> [] \<and> last dir = CHR ''/'' then dir else dir @ ''/'')"

definition rmtree :: "env \<Rightarrow> string \<Rightarrow> unit prog" where
  "rmtree env path w =
     (if os_fails env (Rmtree path) then (Raise (Exn OSError ''operation failed''), w)
      else (Return (), w\<lparr>files := (\<lambda>p. if below path p then None else files w p),
                            trace := trace w @ [Rmtree path]\<rparr>))"

definition install_docker_wyze_bridge_app :: "nat \<Rightarrow> env \<Rightarrow> installation \<Rightarrow> unit prog" where
  "install_docker_wyze_bridge_app fuel env self =
     try_except
       (bind (get_release fuel env (Github ''mrlt8'' ''docker-wyze-bridge'') (wb_version self)
                None False)
          (\<lambda>dwb_release.
             case dwb_release of
               None \<Rightarrow> raise (Exn AttributeError ''NoneType object has no attribute get'')
             | Some rel \<Rightarrow>
                 seq (print_color (''Installing docker-wyze-bridge version: ''
                                   @ lstrip ''v'' (tag_name rel)) COLOR_PURPLE)
                   (bind (download_file env (Github ''mrlt8'' ''docker-wyze-bridge'') (tarball rel))
                      (\<lambda>tar_data.
                         seq (extract_tarball env tar_data (wb_install_path self) (Some ''/app/'') 2)
                           (update_env_file env (wb_env_file self) ''VERSION''
                              (lstrip ''v'' (tag_name rel)))))))
       (\<lambda>e. seq (print_color (''Unexpected error: '' @ str_exn e) COLOR_RED) (sys_exit 1))"

definition install_python_requirements :: "env \<Rightarrow> installation \<Rightarrow> unit prog" where
  "install_python_requirements env self w =
     (if files w (path_join (wb_install_path self) ''requirements.txt'') = None then
        seq (print_color
               ''Requirements file is missing. Something went wrong when installing docker-wyze-bridge''
               COLOR_RED)
          (sys_exit 1) w
      else
        try_except
          (seq (print_color ''Installing Python requirements'' COLOR_CYAN)
             (exec_command env
                (wb_venv_path self @ ''/bin/pip install --disable-pip-version-check -r ''
                 @ path_join (wb_install_path self) ''requirements.txt'')))
          (\<lambda>e. seq (print_color (''Error installing Python requirements: '' @ str_exn e) COLOR_RED)
                 (sys_exit 1))
          w)"

text \<open>
  The version the installed binary reports: \<open>None\<close> when the file is absent, cannot be run
  or returns another code than 0; else the last word of its output without \<open>v\<close> at
  either end.
\<close>

definition probe_mediamtx :: "env \<Rightarrow> string \<Rightarrow> string option prog" where
  "probe_mediamtx env mediamtx_bin w =
     (case files w mediamtx_bin of
        None \<Rightarrow> (Return None, w)
      | Some b \<Rightarrow>
          seq (emit (Exec (mediamtx_bin @ '' --version'')))
            (case run_version env mediamtx_bin of
               Inl e \<Rightarrow>
                 seq (print_color (''Error checking current mediamtx version: '' @ str_exn e)
                        COLOR_RED)
                   (ret None)
             | Inr (returncode, out) \<Rightarrow>
                 ret (if returncode = 0
                      then Some (strip ''v'' (last (py_split (CHR '' '') (strip_ws out))))
                      else None))
            w)"

text \<open>
  \<open>install_mediamtx\<close>. \<open>0o755\<close> is 493. The upsert of \<open>MTX_TAG\<close> stands after the
  \<open>if\<close>/\<open>else\<close> and runs on both branches. The three handlers differ in their message only.
\<close>

definition install_mediamtx ::
  "nat \<Rightarrow> env \<Rightarrow> installation \<Rightarrow> string \<Rightarrow> string \<Rightarrow> bool prog" where
  "install_mediamtx fuel env self ver path =
     try_except
       (bind (probe_mediamtx env (path_join path ''mediamtx''))
          (\<lambda>current_mtx_version.
             bind (get_release fuel env (Github ''bluenviron'' ''mediamtx'') ver
                     (Some ''linux_amd64'') False)
               (\<lambda>mediamtx_release.
                  case mediamtx_release of
                    None \<Rightarrow> raise (Exn AttributeError ''NoneType object has no attribute get'')
                  | Some rel \<Rightarrow>
                      bind
                        (if current_mtx_version \<noteq> Some (lstrip ''v'' (tag_name rel)) then
                           seq (case current_mtx_version of
                                  None \<Rightarrow>
                                    print_color (''Installing mediamtx version: ''
                                                 @ lstrip ''v'' (tag_name rel) @ ''.'') COLOR_CYAN
                                | Some cur \<Rightarrow>
                                    print_color (''Updating mediamtx from: '' @ cur @ '' to: ''
                                                 @ lstrip ''v'' (tag_name rel) @ ''.'') COLOR_CYAN)
                             (bind (download_file env (Github ''bluenviron'' ''mediamtx'')
                                      (tarball rel))
                                (\<lambda>tar_data.
                                   seq (extract_tarball env tar_data path (Some ''mediamtx'') 0)
                                     (seq (chown env path (wb_service_user self)
                                             (wb_service_user self))
                                        (seq (chmod env (path_join path ''mediamtx'') 493)
                                           (seq (print_color
                                                   (''mediamtx version ''
                                                    @ lstrip ''v'' (tag_name rel)
                                                    @ '' installed successfully.'') COLOR_GREEN)
                                              (ret True))))))
                         else seq (print_color ''mediamtx is already up-to-date.'' COLOR_GREEN)
                                (ret False))
                        (\<lambda>changed.
                           seq (update_env_file env (wb_env_file self) ''MTX_TAG''
                                  (lstrip ''v'' (tag_name rel)))
                             (ret changed)))))
       (\<lambda>e. case e of
              Exn URLError m \<Rightarrow>
                seq (print_color (''Error downloading mediamtx: '' @ m) COLOR_RED) (sys_exit 1)
            | _ \<Rightarrow>
                seq (print_color (''Unexpected error: '' @ str_exn e) COLOR_RED) (sys_exit 1))"

text \<open>\<open>s.replace(old, new)\<close> for a non-empty \<open>old\<close>.\<close>

function py_replace :: "string \<Rightarrow> string \<Rightarrow> string \<Rightarrow> string" where
  "py_replace old new [] = []"
| "py_replace old new (c # cs) =
     (if startswith (c # cs) old then new @ py_replace old new (drop (length old - 1) cs)
      else c # py_replace old new cs)"
  by pat_completeness auto
termination
  by (relation "measure (\<lambda>(old, new, s). length s)") auto

definition patch_mediamtx_path :: "env \<Rightarrow> installation \<Rightarrow> string \<Rightarrow> unit prog" where
  "patch_mediamtx_path env self path =
     try_except
       (\<lambda>w. case files w (path_join (path_join (wb_install_path self) ''wyzebridge'')
                              ''mtx_server.py'') of
          None \<Rightarrow> (Return (), w)
        | Some data \<Rightarrow>
            seq (print_color (''Patching path to mediamtx in ''
                              @ path_join (path_join (wb_install_path self) ''wyzebridge'')
                                  ''mtx_server.py'') COLOR_YELLOW)
              (write_file env
                 (path_join (path_join (wb_install_path self) ''wyzebridge'') ''mtx_server.py'')
                 (py_replace ''/app/mediamtx'' (path_join path ''mediamtx'') data))
              w)
       (\<lambda>e. seq (print_color (''Error patching mediamtx path: '' @ str_exn e) COLOR_RED)
              (sys_exit 1))"

text \<open>The settings \<open>run_update\<close> reads from \<open>scriptConfig\<close>, all of them strings.\<close>

record script_config =
  APP_PATH :: string
  APP_USER :: string
  APP_VERSION :: string
  MEDIA_MTX_VERSION :: string
  MEDIA_MTX_PATH :: string

text \<open>
  The branch of \<open>run_update\<close> taken when the installed version differs from the target:
  backup, removal of the install directory, installation from scratch.
\<close>

definition replace_app ::
  "nat \<Rightarrow> env \<Rightarrow> script_config \<Rightarrow> installation \<Rightarrow> string option \<Rightarrow> string \<Rightarrow> bool prog" where
  "replace_app fuel env cfg wyze_bridge installed_ver_num latest_ver_num =
     seq (print_color (''Updating docker-wyze-bridge from '' @ str_opt installed_ver_num
                       @ '' to '' @ latest_ver_num @ ''.'') COLOR_GREEN)
       (seq (backup env wyze_bridge
               (path_join (expanduser env (''~'' @ APP_USER cfg))
                  (''wyze-backups/v'' @ str_opt installed_ver_num @ ''-'' @ now env)))
          (seq (print_color (''Deleting old version of docker-wyze-bridge at: '' @ APP_PATH cfg)
                  COLOR_PURPLE)
             (seq (rmtree env (APP_PATH cfg))
                (seq (install_docker_wyze_bridge_app fuel env wyze_bridge)
                   (seq (install_python_requirements env
                           (wyze_bridge\<lparr>wb_venv_path :=
                              path_join (wb_user_home wyze_bridge) ''.wyze-venv''\<rparr>))
                      (seq (chown env (APP_PATH cfg) (APP_USER cfg) (APP_USER cfg))
                         (ret True)))))))"

text \<open>
  The end of \<open>run_update\<close> (lines 727 to 731): the media relay, the path patch when the
  relay changed, and the result.
\<close>

definition finish_update ::
  "nat \<Rightarrow> env \<Rightarrow> script_config \<Rightarrow> installation \<Rightarrow> bool \<Rightarrow> bool prog" where
  "finish_update fuel env cfg wyze_bridge DWB_UPDATED =
     bind (install_mediamtx fuel env wyze_bridge (MEDIA_MTX_VERSION cfg) (MEDIA_MTX_PATH cfg))
       (\<lambda>MEDIAMTX_UPDATED.
          seq (if MEDIAMTX_UPDATED
               then patch_mediamtx_path env wyze_bridge (MEDIA_MTX_PATH cfg)
               else ret ())
            (ret (DWB_UPDATED \<or> MEDIAMTX_UPDATED)))"

definition run_update :: "nat \<Rightarrow> env \<Rightarrow> script_config \<Rightarrow> bool prog" where
  "run_update fuel env cfg =
     seq (print_color ''Checking for docker-wyze-bridge updates...'' COLOR_CYAN)
       (bind (get_release fuel env (Github ''mrlt8'' ''docker-wyze-bridge'') (APP_VERSION cfg)
                None False)
          (\<lambda>dwb_release.
             case dwb_release of
               None \<Rightarrow> raise (Exn AttributeError ''NoneType object has no attribute get'')
             | Some rel \<Rightarrow>
                 bind (WyzeBridgeInstallation (APP_PATH cfg) (APP_VERSION cfg))
                   (\<lambda>wyze_bridge0.
                      bind (create_service_user env wyze_bridge0 (APP_USER cfg))
                        (\<lambda>wyze_bridge.
                           bind (get_installed_dwb_version (wb_env_file wyze_bridge))
                             (\<lambda>installed_ver_num.
                                if strip ''v'' (tag_name rel) = [] then
                                  seq (print_color
                                         ''Error getting latest version info from: https://api.github.com/repos/mrlt8/docker-wyze-bridge/releases/latest''
                                         COLOR_RED)
                                    (sys_exit 1)
                                else
                                  bind (if installed_ver_num \<noteq> Some (strip ''v'' (tag_name rel))
                                        then replace_app fuel env cfg wyze_bridge installed_ver_num
                                               (strip ''v'' (tag_name rel))
                                        else seq (print_color
                                                    ''docker-wyze-bridge is already up-to-date.''
                                                    COLOR_GREEN)
                                               (ret False))
                                    (finish_update fuel env cfg wyze_bridge))))))"

section \<open>Facts about the string primitives\<close>

lemma py_split_nonempty: "py_split sep s \<noteq> []"
  by (induction s) (auto split: list.splits)

lemma py_splitn_nonempty: "py_splitn sep n s \<noteq> []"
  by (induction sep n s rule: py_splitn.induct) (auto split: list.splits)

lemma hd_py_split: "hd (py_split sep s) = takeWhile (\<lambda>c. c \<noteq> sep) s"
  by (induction s) (auto simp: py_split_nonempty split: list.splits)

lemma py_split_no_sep: "sep \<notin> set s \<Longrightarrow> py_split sep s = [s]"
  by (induction s) auto

lemma tl_py_split:
  "sep \<in> set s \<Longrightarrow> tl (py_split sep s) = py_split sep (tl (dropWhile (\<lambda>c. c \<noteq> sep) s))"
  by (induction s) (auto simp: py_split_no_sep py_split_nonempty split: list.splits)

lemma item_py_split_1:
  "item (py_split sep s) 1 =
     (if sep \<in> set s
      then Some (takeWhile (\<lambda>c. c \<noteq> sep) (tl (dropWhile (\<lambda>c. c \<noteq> sep) s)))
      else None)"
proof (cases "sep \<in> set s")
  case True
  obtain a as where p: "py_split sep s = a # as"
    using py_split_nonempty by (cases "py_split sep s") auto
  have "as = py_split sep (tl (dropWhile (\<lambda>c. c \<noteq> sep) s))"
    using tl_py_split[OF True] p by simp
  moreover obtain b bs where "py_split sep (tl (dropWhile (\<lambda>c. c \<noteq> sep) s)) = b # bs"
    using py_split_nonempty by (cases "py_split sep (tl (dropWhile (\<lambda>c. c \<noteq> sep) s))") auto
  ultimately show ?thesis
    using True p hd_py_split[of sep "tl (dropWhile (\<lambda>c. c \<noteq> sep) s)"]
    by (simp add: item_def)
next
  case False
  then show ?thesis by (simp add: py_split_no_sep item_def)
qed

lemma length_py_split: "length (py_split sep s) = Suc (count_list s sep)"
  by (induction s) (auto simp: py_split_nonempty split: list.splits)

lemma length_py_splitn: "length (py_splitn sep n s) = Suc (min n (count_list s sep))"
  by (induction sep n s rule: py_splitn.induct) (auto simp: py_splitn_nonempty split: list.splits)

lemma join_slash_py_split: "join_slash (py_split (CHR ''/'') s) = s"
proof (induction s)
  case Nil
  then show ?case by (simp add: join_slash_def)
next
  case (Cons c cs)
  obtain x xs where p: "py_split (CHR ''/'') cs = x # xs"
    using py_split_nonempty by (cases "py_split (CHR ''/'') cs") auto
  show ?case using Cons p by (auto simp: join_slash_def)
qed

lemma last_py_splitn:
  "n \<le> count_list s (CHR ''/'') \<Longrightarrow>
     last (py_splitn (CHR ''/'') n s) = drop_segments n s"
proof (induction "CHR ''/''" n s rule: py_splitn.induct)
  case (1 s)
  then show ?case by (simp add: drop_segments_def join_slash_py_split)
next
  case (2 n)
  then show ?case by simp
next
  case (3 n c cs)
  show ?case
  proof (cases "c = CHR ''/''")
    case True
    then show ?thesis using 3 by (simp add: py_splitn_nonempty drop_segments_def)
  next
    case False
    let ?r = "py_splitn (CHR ''/'') (Suc n) cs"
    let ?p = "py_split (CHR ''/'') cs"
    from False 3 have le: "Suc n \<le> count_list cs (CHR ''/'')" by simp
    have "length ?r = Suc (Suc n)" using le by (simp add: length_py_splitn)
    then obtain a b rest where r: "?r = a # b # rest"
      by (cases ?r; cases "tl ?r") auto
    obtain x xs where p: "?p = x # xs"
      using py_split_nonempty by (cases ?p) auto
    have ih: "last ?r = drop_segments (Suc n) cs" using 3 False le by simp
    show ?thesis using False r p ih by (simp add: drop_segments_def)
  qed
qed

lemma py_split_count_0: "count_list s sep = 0 \<Longrightarrow> py_split sep s = [s]"
  by (induction s) (auto split: if_splits)

lemma py_splitn_all:
  "count_list s sep \<le> n \<Longrightarrow> py_splitn sep n s = py_split sep s"
  by (induction sep n s rule: py_splitn.induct) (auto simp: py_split_count_0 split: if_splits)

section \<open>The installed version\<close>




section \<open>Extraction\<close>

lemma extract_members_trace:
  "extract_members env ms path (Some f) n w = (r, w') \<Longrightarrow>
   \<exists>k. k \<le> length (filter (\<lambda>m. contains f (m_name m)) ms) \<and>
       trace w' = trace w @
         map (\<lambda>m. Extract path (if n \<noteq> 0 then last (py_splitn (CHR ''/'') n (m_name m)) else m_name m))
           (take k (filter (\<lambda>m. contains f (m_name m)) ms)) \<and>
       (r = Return () \<longrightarrow> k = length (filter (\<lambda>m. contains f (m_name m)) ms))"
proof (induction ms arbitrary: w)
  case Nil
  then show ?case by auto
next
  case (Cons m ms)
  let ?sel = "filter (\<lambda>m. contains f (m_name m)) ms"
  let ?ev = "\<lambda>m. Extract path (if n \<noteq> 0 then last (py_splitn (CHR ''/'') n (m_name m)) else m_name m)"
  show ?case
  proof (cases "contains f (m_name m)")
    case False
    then show ?thesis using Cons by simp
  next
    case True
    let ?m' = "if n \<noteq> 0 then m\<lparr>m_name := last (py_splitn (CHR ''/'') n (m_name m))\<rparr> else m"
    show ?thesis
    proof (cases "os_fails env (Extract path (m_name ?m'))")
      case fails: True
      then have "r = Raise (Exn OSError ''operation failed'') \<and> w' = w"
        using Cons.prems True by (auto simp: tar_extract_def split: if_splits)
      then show ?thesis by (intro exI[of _ 0]) auto
    next
      case ok: False
      define w1 where "w1 = snd (tar_extract env ?m' path w)"
      have t: "tar_extract env ?m' path w = (Return (), w1)"
        using ok by (simp add: w1_def tar_extract_def)
      have tr1: "trace w1 = trace w @ [?ev m]"
        using ok by (auto simp: w1_def tar_extract_def)
      have "extract_members env ms path (Some f) n w1 = (r, w')"
        using Cons.prems True t by (simp split: if_splits)
      from Cons.IH[OF this] obtain k where
        k: "k \<le> length ?sel" "trace w' = trace w1 @ map ?ev (take k ?sel)"
           "r = Return () \<longrightarrow> k = length ?sel"
        by blast
      show ?thesis
        using True k tr1 by (intro exI[of _ "Suc k"]) auto
    qed
  qed
qed

section \<open>The environment-file upsert\<close>

lemma universal_newlines_no_CR: "CR \<notin> set (universal_newlines s)"
  by (induction s rule: universal_newlines.induct) (auto simp: LF_def CR_def)

lemma universal_newlines_id: "CR \<notin> set s \<Longrightarrow> universal_newlines s = s"
  by (induction s rule: universal_newlines.induct) auto

lemma concat_keepends: "concat (keepends s) = s"
  by (induction s) (auto split: list.splits)

lemma keepends_Nil_iff: "keepends s = [] \<longleftrightarrow> s = []"
  by (cases s) (auto split: list.splits)

lemma wf_lines_keepends: "wf_lines (keepends s)"
proof (induction s)
  case Nil
  then show ?case by simp
next
  case (Cons c cs)
  show ?case
  proof (cases "c = LF")
    case True
    then show ?thesis using Cons by (cases "keepends cs") (auto simp: terminated_def)
  next
    case False
    show ?thesis
    proof (cases "keepends cs")
      case Nil
      then show ?thesis using False by simp
    next
      case (Cons l ls)
      then show ?thesis using False Cons.IH
        by (cases ls) (auto simp: terminated_def)
    qed
  qed
qed

lemma keepends_terminated_append:
  "LF \<notin> set b \<Longrightarrow> keepends (b @ LF # rest) = (b @ [LF]) # keepends rest"
  by (induction b) auto

lemma keepends_unterminated: "u \<noteq> [] \<Longrightarrow> LF \<notin> set u \<Longrightarrow> keepends u = [u]"
proof (induction u)
  case Nil
  then show ?case by simp
next
  case (Cons c cs)
  then show ?case by (cases cs) auto
qed

lemma terminated_split: "terminated l \<Longrightarrow> \<exists>b. l = b @ [LF] \<and> LF \<notin> set b"
  unfolding terminated_def by (metis append_butlast_last_id)

lemma keepends_concat: "wf_lines ls \<Longrightarrow> keepends (concat ls) = ls"
proof (induction ls rule: wf_lines.induct)
  case 1
  then show ?case by simp
next
  case (2 l)
  show ?case
  proof (cases "last l = LF")
    case True
    with 2 have "terminated l" by (simp add: terminated_def)
    then obtain b where "l = b @ [LF]" "LF \<notin> set b" using terminated_split by blast
    then show ?thesis using keepends_terminated_append[of b "[]"] by simp
  next
    case False
    from 2 have "l = butlast l @ [last l]" by simp
    then have "set l = insert (last l) (set (butlast l))"
      by (metis Un_insert_right append_Nil2 list.simps(15) set_append)
    with 2 False have "LF \<notin> set l" by auto
    then show ?thesis using 2 keepends_unterminated by simp
  qed
next
  case (3 l l' ls)
  then obtain b where "l = b @ [LF]" "LF \<notin> set b" using terminated_split by auto
  then show ?case using 3 keepends_terminated_append[of b "concat (l' # ls)"] by simp
qed

lemma startswith_self_append: "startswith (p @ s) p"
  by (simp add: startswith_def)

lemma startswith_mem: "startswith l (k @ [c]) \<Longrightarrow> c \<in> set l"
proof -
  assume "startswith l (k @ [c])"
  then have "take (Suc (length k)) l = k @ [c]" by (simp add: startswith_def)
  then have "c \<in> set (take (Suc (length k)) l)" by simp
  then show ?thesis by (rule in_set_takeD)
qed

lemma env_loop_none:
  "\<forall>l\<in>set ls. \<not> startswith l (key @ ''='') \<Longrightarrow> env_loop key nl ls = (ls, None)"
  by (induction ls) auto

lemma env_loop_some:
  "\<exists>l\<in>set ls. startswith l (key @ ''='') \<Longrightarrow>
     \<exists>ls' old. env_loop key nl ls = (ls', Some old) \<and> startswith old (key @ ''='')"
proof (induction ls)
  case Nil
  then show ?case by simp
next
  case (Cons a ls)
  show ?case
  proof (cases "startswith a (key @ ''='')")
    case True
    then show ?thesis by simp
  next
    case False
    with Cons.prems have "\<exists>l\<in>set ls. startswith l (key @ ''='')" by auto
    from Cons.IH[OF this] obtain ls' old where
      "env_loop key nl ls = (ls', Some old)" "startswith old (key @ ''='')" by blast
    then show ?thesis using False by simp
  qed
qed

lemma env_loop_snd_None:
  "snd (env_loop key nl ls) = None \<longleftrightarrow> (\<forall>l\<in>set ls. \<not> startswith l (key @ ''=''))"
  by (induction ls) (auto split: prod.splits)

lemma upsert_lines_Cons:
  "upsert_lines key nl (l # ls) =
     (if startswith l (key @ ''='') then nl # ls else l # upsert_lines key nl ls)"
  by (auto simp: upsert_lines_def split: prod.splits option.splits)

lemma upsert_lines_Nil: "upsert_lines key nl [] = [nl]"
  by (simp add: upsert_lines_def)

lemma upsert_lines_idem:
  "startswith nl (key @ ''='') \<Longrightarrow>
     upsert_lines key nl (upsert_lines key nl ls) = upsert_lines key nl ls"
  by (induction ls) (auto simp: upsert_lines_Cons upsert_lines_Nil)

lemma upsert_lines_count:
  "startswith nl (key @ ''='') \<Longrightarrow>
     length (filter (\<lambda>l. startswith l (key @ ''='')) (upsert_lines key nl ls)) =
       max 1 (length (filter (\<lambda>l. startswith l (key @ ''='')) ls))"
  by (induction ls) (auto simp: upsert_lines_Cons upsert_lines_Nil)

lemma wf_lines_Cons_terminated: "terminated l \<Longrightarrow> wf_lines ls \<Longrightarrow> wf_lines (l # ls)"
  by (cases ls) (auto simp: terminated_def)

lemma wf_lines_tl: "wf_lines (l # ls) \<Longrightarrow> wf_lines ls"
  by (cases ls) auto

lemma wf_lines_upsert:
  "terminated nl \<Longrightarrow> wf_lines ls \<Longrightarrow>
   ls = [] \<or> last ls \<noteq> [] \<and> last (last ls) = LF \<or> (\<exists>l\<in>set ls. startswith l (key @ ''='')) \<Longrightarrow>
   wf_lines (upsert_lines key nl ls)"
proof (induction ls rule: wf_lines.induct)
  case 1
  then show ?case by (simp add: upsert_lines_Nil terminated_def)
next
  case (2 l)
  then show ?case
    by (auto simp: upsert_lines_Cons upsert_lines_Nil terminated_def)
next
  case (3 l l' ls)
  show ?case
  proof (cases "startswith l (key @ ''='')")
    case True
    then show ?thesis using 3 by (simp add: upsert_lines_Cons wf_lines_Cons_terminated)
  next
    case False
    have "wf_lines (upsert_lines key nl (l' # ls))"
      using 3 False by auto
    moreover have "terminated l" using 3 by simp
    moreover have "upsert_lines key nl (l # l' # ls) = l # upsert_lines key nl (l' # ls)"
      using False by (simp add: upsert_lines_Cons)
    ultimately show ?thesis by (simp only: wf_lines_Cons_terminated)
  qed
qed

lemma update_env_file_effect:
  assumes "files w p = Some content"
    and "c' = concat (upsert_lines key (key @ ''='' @ val @ [LF]) (readlines content))"
    and "\<not> os_fails env (WriteFile p c')"
  shows "\<exists>msgs. update_env_file env p key val w =
           (Return (), w\<lparr>files := (files w)(p \<mapsto> c'), trace := trace w @ msgs @ [WriteFile p c']\<rparr>)
         \<and> (\<forall>e\<in>set msgs. \<exists>m c. e = Print m c)"
proof (cases "\<forall>l\<in>set (readlines content). \<not> startswith l (key @ ''='')")
  case True
  then have "env_loop key (key @ ''='' @ val @ [LF]) (readlines content) = (readlines content, None)"
    by (rule env_loop_none)
  then show ?thesis using assms
    by (intro exI[of _ "[]"])
       (simp add: update_env_file_def try_except_def write_file_def upsert_lines_def)
next
  case False
  then obtain ls' old where
    e: "env_loop key (key @ ''='' @ val @ [LF]) (readlines content) = (ls', Some old)"
    and o: "startswith old (key @ ''='')"
    using env_loop_some[of "readlines content" key] by blast
  have "CHR ''='' \<in> set old" using o startswith_mem[of old key "CHR ''=''"] by simp
  then obtain v where v: "item (py_split (CHR ''='') old) (Suc 0) = Some v"
    using item_py_split_1[of "CHR ''=''" old] by simp
  have c: "c' = concat ls'" using assms e by (simp add: upsert_lines_def)
  show ?thesis
  proof (cases "strip_ws v \<noteq> val")
    case True
    then show ?thesis using assms(1,3) e v c
      by (intro exI[of _ "[Print (''Updating '' @ p @ '': '' @ key @ '' from: ''
                                             @ strip_ws v @ '' to: '' @ val) COLOR_YELLOW]"])
         (simp add: update_env_file_def try_except_def write_file_def seq_def bind_def
            print_color_def emit_def)
  next
    case False
    then show ?thesis using assms(1,3) e v c
      by (intro exI[of _ "[]"])
         (simp add: update_env_file_def try_except_def write_file_def seq_def bind_def ret_def)
  qed
qed

lemma set_upsert_lines: "set (upsert_lines key nl ls) \<subseteq> insert nl (set ls)"
  by (induction ls) (auto simp: upsert_lines_Cons upsert_lines_Nil)

lemma universal_newlines_last:
  "s \<noteq> [] \<Longrightarrow> universal_newlines s \<noteq> [] \<and>
     last (universal_newlines s) = (if last s = CR then LF else last s)"
  by (induction s rule: universal_newlines.induct) (auto simp: LF_def CR_def)

lemma keepends_last:
  "s \<noteq> [] \<Longrightarrow> keepends s \<noteq> [] \<and> last (keepends s) \<noteq> [] \<and> last (last (keepends s)) = last s"
proof (induction s)
  case Nil
  then show ?case by simp
next
  case (Cons c cs)
  show ?case
  proof (cases cs)
    case Nil
    then show ?thesis by simp
  next
    case (Cons d ds)
    then have "cs \<noteq> []" by simp
    with Cons.IH obtain l ls where k: "keepends cs = l # ls"
      and l: "last (keepends cs) \<noteq> []" "last (last (keepends cs)) = last cs"
      by (cases "keepends cs") auto
    show ?thesis using k l \<open>cs \<noteq> []\<close> by (cases ls) auto
  qed
qed

lemma readlines_written:
  assumes "LF \<notin> set key" "CR \<notin> set key" "LF \<notin> set val" "CR \<notin> set val"
    and "content = [] \<or> last content = LF \<or> last content = CR
         \<or> (\<exists>l\<in>set (readlines content). startswith l (key @ ''=''))"
  shows "readlines (concat (upsert_lines key (key @ ''='' @ val @ [LF]) (readlines content)))
         = upsert_lines key (key @ ''='' @ val @ [LF]) (readlines content)"
proof -
  let ?nl = "key @ ''='' @ val @ [LF]"
  let ?L = "readlines content"
  let ?L' = "upsert_lines key ?nl ?L"
  have t: "terminated ?nl" using assms(1,3) by (simp add: terminated_def butlast_append LF_def)
  have wfL: "wf_lines ?L" by (simp add: readlines_def wf_lines_keepends)
  have cond: "?L = [] \<or> last ?L \<noteq> [] \<and> last (last ?L) = LF
              \<or> (\<exists>l\<in>set ?L. startswith l (key @ ''=''))"
  proof (cases "content = []")
    case True
    then show ?thesis by (simp add: readlines_def)
  next
    case False
    then have u: "universal_newlines content \<noteq> []"
      "last (universal_newlines content) = (if last content = CR then LF else last content)"
      using universal_newlines_last by auto
    show ?thesis
    proof (cases "last content = LF \<or> last content = CR")
      case True
      then have "last (universal_newlines content) = LF" using u by auto
      then show ?thesis using keepends_last[OF u(1)] by (simp add: readlines_def)
    next
      case no: False
      then show ?thesis using assms(5) False by blast
    qed
  qed
  have wf: "wf_lines ?L'" using wf_lines_upsert[OF t wfL cond] .
  have "CR \<notin> set (concat ?L)"
    by (simp only: readlines_def concat_keepends universal_newlines_no_CR not_False_eq_True)
  moreover have "CR \<notin> set ?nl" using assms(2,4) by (simp add: LF_def CR_def)
  ultimately have "CR \<notin> set (concat ?L')"
    using set_upsert_lines[of key ?nl ?L] by auto
  then have "universal_newlines (concat ?L') = concat ?L'" by (rule universal_newlines_id)
  then show ?thesis using keepends_concat[OF wf] by (simp add: readlines_def)
qed

text \<open>
  C4 (as amended). Let key and value hold no line break, and let the file be empty, end
  with a line terminator, or already hold a line that starts with \<open>key=\<close>; let the write
  succeed. Then both upserts return, the second leaves every file as the first left it
  (the environment file byte for byte), and the number of lines that start with \<open>key=\<close>
  after the upsert is the number before it, or one when there was none: exactly one
  when the file had at most one.
\<close>

theorem update_env_file_idempotent:
  assumes "LF \<notin> set key" "CR \<notin> set key" "LF \<notin> set val" "CR \<notin> set val"
    and f: "files w p = Some content"
    and "content = [] \<or> last content = LF \<or> last content = CR
         \<or> (\<exists>l\<in>set (readlines content). startswith l (key @ ''=''))"
    and ok: "\<forall>c. \<not> os_fails env (WriteFile p c)"
  shows "\<exists>c1. fst (update_env_file env p key val w) = Return ()
           \<and> files (snd (update_env_file env p key val w)) p = Some c1
           \<and> fst (update_env_file env p key val (snd (update_env_file env p key val w))) = Return ()
           \<and> files (snd (update_env_file env p key val (snd (update_env_file env p key val w))))
               = files (snd (update_env_file env p key val w))
           \<and> length (filter (\<lambda>l. startswith l (key @ ''='')) (readlines c1))
               = max 1 (length (filter (\<lambda>l. startswith l (key @ ''='')) (readlines content)))"
proof -
  let ?nl = "key @ ''='' @ val @ [LF]"
  let ?L' = "upsert_lines key ?nl (readlines content)"
  let ?c1 = "concat ?L'"
  have P: "startswith ?nl (key @ ''='')" by (simp add: startswith_def)
  have rl: "readlines ?c1 = ?L'" using readlines_written[OF assms(1-4) assms(6)] .
  from update_env_file_effect[OF f refl, of env key val] ok obtain msgs where
    r1: "update_env_file env p key val w =
           (Return (), w\<lparr>files := (files w)(p \<mapsto> ?c1), trace := trace w @ msgs @ [WriteFile p ?c1]\<rparr>)"
    by blast
  let ?w1 = "w\<lparr>files := (files w)(p \<mapsto> ?c1), trace := trace w @ msgs @ [WriteFile p ?c1]\<rparr>"
  have f1: "files ?w1 p = Some ?c1" by simp
  have c2: "?c1 = concat (upsert_lines key ?nl (readlines ?c1))"
    using rl upsert_lines_idem[OF P] by simp
  from update_env_file_effect[OF f1 c2, of env] ok obtain msgs2 where
    r2: "update_env_file env p key val ?w1 =
           (Return (), ?w1\<lparr>files := (files ?w1)(p \<mapsto> ?c1), trace := trace ?w1 @ msgs2 @ [WriteFile p ?c1]\<rparr>)"
    by blast
  have "length (filter (\<lambda>l. startswith l (key @ ''='')) (readlines ?c1))
          = max 1 (length (filter (\<lambda>l. startswith l (key @ ''='')) (readlines content)))"
    using rl upsert_lines_count[OF P] by simp
  then show ?thesis using r1 r2 by (intro exI[of _ ?c1]) (simp add: fun_upd_idem)
qed

lemmas eval_str = readlines_def startswith_def strip_ws_def strip_def lstrip_def rstrip_def
  whitespace_def LF_def CR_def item_def

lemmas eval_prog = bind_def seq_def ret_def raise_def sys_exit_def try_except_def emit_def
  print_color_def os_call_def write_file_def

text \<open>The theorem at a file that holds the key: \<open>VERSION=1.0\<close> becomes \<open>VERSION=2.0\<close>, once.\<close>

theorem update_env_file_idempotent_witness:
  "fst (update_env_file quiet_env ''/srv/.env'' ''VERSION'' ''2.0''
          \<lparr>files = [''/srv/.env'' \<mapsto> ''A=1'' @ [LF] @ ''VERSION=1.0'' @ [LF]], trace = []\<rparr>) = Return ()
   \<and> files (snd (update_env_file quiet_env ''/srv/.env'' ''VERSION'' ''2.0''
          \<lparr>files = [''/srv/.env'' \<mapsto> ''A=1'' @ [LF] @ ''VERSION=1.0'' @ [LF]], trace = []\<rparr>)) ''/srv/.env''
       = Some (''A=1'' @ [LF] @ ''VERSION=2.0'' @ [LF])
   \<and> files (snd (update_env_file quiet_env ''/srv/.env'' ''VERSION'' ''2.0''
         (snd (update_env_file quiet_env ''/srv/.env'' ''VERSION'' ''2.0''
          \<lparr>files = [''/srv/.env'' \<mapsto> ''A=1'' @ [LF] @ ''VERSION=1.0'' @ [LF]], trace = []\<rparr>))))
       = files (snd (update_env_file quiet_env ''/srv/.env'' ''VERSION'' ''2.0''
          \<lparr>files = [''/srv/.env'' \<mapsto> ''A=1'' @ [LF] @ ''VERSION=1.0'' @ [LF]], trace = []\<rparr>))"
proof -
  let ?w = "\<lparr>files = [''/srv/.env'' \<mapsto> ''A=1'' @ [LF] @ ''VERSION=1.0'' @ [LF]], trace = []\<rparr>"
  have h1: "LF \<notin> set ''VERSION''" "CR \<notin> set ''VERSION''" "LF \<notin> set ''2.0''" "CR \<notin> set ''2.0''"
    by (simp_all add: LF_def CR_def)
  have h2: "files ?w ''/srv/.env'' = Some (''A=1'' @ [LF] @ ''VERSION=1.0'' @ [LF])" by simp
  have h3: "''A=1'' @ [LF] @ ''VERSION=1.0'' @ [LF] = [] \<or> last (''A=1'' @ [LF] @ ''VERSION=1.0'' @ [LF]) = LF
      \<or> last (''A=1'' @ [LF] @ ''VERSION=1.0'' @ [LF]) = CR
      \<or> (\<exists>l\<in>set (readlines (''A=1'' @ [LF] @ ''VERSION=1.0'' @ [LF])). startswith l (''VERSION'' @ ''=''))"
    by simp
  have h4: "\<forall>c. \<not> os_fails quiet_env (WriteFile ''/srv/.env'' c)" by (simp add: quiet_env_def)
  have c: "files (snd (update_env_file quiet_env ''/srv/.env'' ''VERSION'' ''2.0'' ?w)) ''/srv/.env''
       = Some (''A=1'' @ [LF] @ ''VERSION=2.0'' @ [LF])"
    by (simp add: update_env_file_def eval_str eval_prog quiet_env_def COLOR_YELLOW_def)
  from update_env_file_idempotent[OF h1 h2 h3 h4] c show ?thesis by auto
qed

text \<open>
  C4 as stated fails. A file \<open>A=1\<close> with no final line break: the first upsert of \<open>K=V\<close>
  writes \<open>A=1K=V\<close>, where no line starts with \<open>K=\<close>, and the second appends again, so the
  bytes differ. A file with lines \<open>K=1\<close> and \<open>K=2\<close>: only the first is replaced, and two
  lines for the key remain.
\<close>

theorem update_env_file_idempotent_counterexample:
  "files (snd (update_env_file quiet_env ''/srv/.env'' ''K'' ''V''
          \<lparr>files = [''/srv/.env'' \<mapsto> ''A=1''], trace = []\<rparr>)) ''/srv/.env''
     = Some (''A=1K=V'' @ [LF])
   \<and> files (snd (update_env_file quiet_env ''/srv/.env'' ''K'' ''V''
         (snd (update_env_file quiet_env ''/srv/.env'' ''K'' ''V''
          \<lparr>files = [''/srv/.env'' \<mapsto> ''A=1''], trace = []\<rparr>)))) ''/srv/.env''
     = Some (''A=1K=V'' @ [LF] @ ''K=V'' @ [LF])
   \<and> files (snd (update_env_file quiet_env ''/srv/.env'' ''K'' ''V''
          \<lparr>files = [''/srv/.env'' \<mapsto> ''K=1'' @ [LF] @ ''K=2'' @ [LF]], trace = []\<rparr>)) ''/srv/.env''
     = Some (''K=V'' @ [LF] @ ''K=2'' @ [LF])
   \<and> length (filter (\<lambda>l. startswith l ''K='') (readlines (''K=V'' @ [LF] @ ''K=2'' @ [LF]))) = 2"
  by (simp add: update_env_file_def eval_str eval_prog quiet_env_def COLOR_YELLOW_def)

section \<open>Extraction with a name filter and stripped directories\<close>

text \<open>
  C5 (as amended). With a name filter \<open>f\<close> and \<open>strip_dirs = n > 0\<close>, the members
  extracted are, in archive order, those whose stored path contains \<open>f\<close> (all of them when
  the extraction returns, the first \<open>k\<close> of them when a member fails), and no other member.
  A member whose path holds at least \<open>n\<close> slashes is extracted under its path with the
  first \<open>n\<close> slash-delimited segments removed; a shorter path keeps its last segment.
\<close>

theorem extract_tarball_filter_and_strip:
  assumes "0 < n"
    and "extract_tarball env (TarGz ms) path (Some f) n w = (r, w')"
  shows "\<exists>k. k \<le> length (filter (\<lambda>m. contains f (m_name m)) ms)
           \<and> trace w' = trace w @
               map (\<lambda>m. Extract path
                          (if n \<le> count_list (m_name m) (CHR ''/'') then drop_segments n (m_name m)
                           else last (py_split (CHR ''/'') (m_name m))))
                 (take k (filter (\<lambda>m. contains f (m_name m)) ms))
           \<and> (r = Return () \<longrightarrow> k = length (filter (\<lambda>m. contains f (m_name m)) ms))"
proof -
  have eq: "\<And>s. (if n \<noteq> 0 then last (py_splitn (CHR ''/'') n s) else s)
        = (if n \<le> count_list s (CHR ''/'') then drop_segments n s
           else last (py_split (CHR ''/'') s))"
    using assms(1) by (simp add: last_py_splitn py_splitn_all)
  from assms(2) have "extract_members env ms path (Some f) n w = (r, w')"
    by (simp add: extract_tarball_def)
  from extract_members_trace[OF this] show ?thesis unfolding eq .
qed

text \<open>
  A source tarball, the filter \<open>/app/\<close> and two stripped directories: \<open>README.md\<close> is
  skipped, the two members below \<open>app/\<close> land flat.
\<close>

theorem extract_tarball_filter_and_strip_witness:
  "(0::nat) < 2
   \<and> fst (extract_tarball quiet_env (TarGz example_members) ''/srv/wb'' (Some ''/app/'') 2
          \<lparr>files = Map.empty, trace = []\<rparr>) = Return ()
   \<and> trace (snd (extract_tarball quiet_env (TarGz example_members) ''/srv/wb'' (Some ''/app/'') 2
          \<lparr>files = Map.empty, trace = []\<rparr>))
       = [Extract ''/srv/wb'' ''frontend.py'', Extract ''/srv/wb'' ''lib/x'']"
proof -
  let ?w = "\<lparr>files = Map.empty, trace = []\<rparr>"
  let ?res = "extract_tarball quiet_env (TarGz example_members) ''/srv/wb'' (Some ''/app/'') 2 ?w"
  let ?sel = "[\<lparr>m_name = ''repo/app/frontend.py'', m_isreg = True, m_data = ''import flask''\<rparr>,
        \<lparr>m_name = ''repo/app/lib/x'', m_isreg = True, m_data = ''x''\<rparr>]"
  have r: "fst ?res = Return ()"
    by code_simp
  have sel: "filter (\<lambda>m. contains ''/app/'' (m_name m)) example_members = ?sel"
    by code_simp
  have ev: "map (\<lambda>m. Extract ''/srv/wb''
                 (if 2 \<le> count_list (m_name m) (CHR ''/'') then drop_segments 2 (m_name m)
                  else last (py_split (CHR ''/'') (m_name m)))) ?sel
            = [Extract ''/srv/wb'' ''frontend.py'', Extract ''/srv/wb'' ''lib/x'']"
    by code_simp
  have pos: "(0::nat) < 2" by simp
  have c: "?res = (fst ?res, snd ?res)" by (rule prod.collapse[symmetric])
  from extract_tarball_filter_and_strip[OF pos c] obtain k where
    k: "k \<le> length (filter (\<lambda>m. contains ''/app/'' (m_name m)) example_members) \<and>
        trace (snd ?res) = trace ?w @
          map (\<lambda>m. Extract ''/srv/wb''
                 (if 2 \<le> count_list (m_name m) (CHR ''/'') then drop_segments 2 (m_name m)
                  else last (py_split (CHR ''/'') (m_name m))))
            (take k (filter (\<lambda>m. contains ''/app/'' (m_name m)) example_members)) \<and>
        (fst ?res = Return () \<longrightarrow> k = length (filter (\<lambda>m. contains ''/app/'' (m_name m)) example_members))"
    ..
  have t2: "take 2 ?sel = ?sel" by simp
  have l2: "length ?sel = 2" by simp
  from k r have k2: "k = 2" by (simp only: sel l2)
  have "trace (snd ?res) = [Extract ''/srv/wb'' ''frontend.py'', Extract ''/srv/wb'' ''lib/x'']"
    using k by (simp only: k2 sel t2 ev world.select_convs append_Nil)
  with r pos show ?thesis by blast
qed

text \<open>
  C5 as stated fails for a path with no more than \<open>n\<close> segments: \<open>a/b\<close> matches the filter
  \<open>a\<close> and is extracted as \<open>b\<close>, while removing its first two segments leaves nothing.
\<close>

theorem extract_tarball_strip_counterexample:
  "contains ''a'' ''a/b''
   \<and> trace (snd (extract_tarball quiet_env
        (TarGz [\<lparr>m_name = ''a/b'', m_isreg = True, m_data = ''x''\<rparr>]) ''/dst'' (Some ''a'') 2
        \<lparr>files = Map.empty, trace = []\<rparr>)) = [Extract ''/dst'' ''b'']
   \<and> drop_segments 2 ''a/b'' = []"
  by code_simp

section \<open>The release resolver\<close>

lemma bind_Exit: "m w = (Exit n, w') \<Longrightarrow> bind m f w = (Exit n, w')"
  by (simp add: bind_def)


lemma try_except_Exit: "m w = (Exit n, w') \<Longrightarrow> try_except m h w = (Exit n, w')"
  by (simp add: try_except_def)

lemma url_open_Inr:
  "urlopen env url = Inr r \<Longrightarrow> url_open env url w = (Return r, w\<lparr>trace := trace w @ [UrlOpen url]\<rparr>)"
  by (simp add: url_open_def seq_def bind_def emit_def ret_def)


lemma contains_Nil: "contains [] s"
  by (cases s) (simp_all add: startswith_def)

text \<open>
  C1. \<open>fetch_release_url\<close> does not return the URL of every release whose tag is the
  requested version: a page is scanned only when its link header names a next page, so the
  last page of the listing (the only page of a short one) is never scanned. The version
  \<open>1.0\<close> matches the release tagged \<open>v1.0\<close>; on a listing of one page, and on a listing of
  two pages that holds the release on its second page, the resolver ends the process with
  status 1, whatever the fuel.
\<close>

theorem fetch_release_url_skips_last_page:
  "release_matches ''1.0''
       \<lparr>r_name = Some ''v1.0'', r_tag_name = ''v1.0'',
        r_url = ''https://api.github.com/repos/o/r/releases/1''\<rparr>
   \<and> fst (fetch_release_url (Suc fuel) one_page_env (Github ''o'' ''r'') ''1.0'' w) = Exit 1
   \<and> fst (fetch_release_url (Suc (Suc fuel)) two_page_env (Github ''o'' ''r'') ''1.0'' w) = Exit 1"
proof -
  let ?p1 = "\<lparr>status = 200,
               link = Some ''<https://api.github.com/repos/o/r/releases?page=2>; rel=next'',
               body = JsonReleases
                 [\<lparr>r_name = Some ''v2.0'', r_tag_name = ''v2.0'',
                   r_url = ''https://api.github.com/repos/o/r/releases/2''\<rparr>]\<rparr>"
  let ?p2 = "\<lparr>status = 200,
               link = Some ''<https://api.github.com/repos/o/r/releases?page=1>; rel=prev'',
               body = JsonReleases
                 [\<lparr>r_name = Some ''v1.0'', r_tag_name = ''v1.0'',
                   r_url = ''https://api.github.com/repos/o/r/releases/1''\<rparr>]\<rparr>"
  let ?q = "\<lparr>status = 200, link = None,
               body = JsonReleases
                 [\<lparr>r_name = Some ''v1.0'', r_tag_name = ''v1.0'',
                   r_url = ''https://api.github.com/repos/o/r/releases/1''\<rparr>]\<rparr>"
  have n1: "has_next ?p1" by code_simp
  have n2: "\<not> has_next ?p2" by code_simp
  have nq: "\<not> has_next ?q" by code_simp
  have l1: "next_link ?p1 = Some ''https://api.github.com/repos/o/r/releases?page=2''" by code_simp
  have a: "fst (fetch_release_url (Suc fuel) one_page_env (Github ''o'' ''r'') ''1.0'' w) = Exit 1"
    using nq
    by (simp add: fetch_release_url_def try_except_def bind_def url_open_def seq_def emit_def
          ret_def one_page_env_def quiet_env_def Github_def print_color_def sys_exit_def)
  have b: "fst (fetch_release_url (Suc (Suc fuel)) two_page_env (Github ''o'' ''r'') ''1.0'' w) = Exit 1"
    using n1 n2 l1
    by (simp add: fetch_release_url_def try_except_def bind_def url_open_def seq_def emit_def
          ret_def two_page_env_def quiet_env_def Github_def print_color_def sys_exit_def
          release_matches_def raise_def)
  show ?thesis using a b by (simp add: release_matches_def)
qed




text \<open>
  C9. When the release has a non-empty asset list, none of whose names contains the
  pattern, \<open>get_release\<close> returns \<open>None\<close>: no descriptor with the source tarball, no
  diagnostic and no exit. The trace gains the request of the release (and the line printed
  under \<open>debug\<close>).
\<close>

theorem get_release_no_matching_asset:
  assumes "fetch_release_url fuel env g version w = (Return url, w1)"
    and "urlopen env url = Inr response" and "body response = JsonRelease info"
    and "ri_assets info = Some assets" and "assets \<noteq> []"
    and "\<forall>a\<in>set assets. \<not> contains pattern (a_name a)"
  shows "get_release fuel env g version (Some pattern) debug w =
           (Return None,
            w1\<lparr>trace := trace w1 @ UrlOpen url #
               (if debug then [PrintPlain (''['' @ repo_name g @ ''] Found release: '' @ str_opt (ri_name info))]
                else [])\<rparr>)"
proof -
  from assms(5,6) have ne: "pattern \<noteq> []"
    using contains_Nil by (cases assets) auto
  from assms(6) have nf: "find (\<lambda>asset. contains pattern (a_name asset)) assets = None"
    by (simp add: find_None_iff)
  show ?thesis
    using assms(1,3,4) ne nf
    by (simp add: get_release_def bind_def try_except_def url_open_Inr[OF assms(2)]
          seq_def emit_def ret_def)
qed

text \<open>The call of \<open>install_ffmpeg\<close>, against a release that has no \<open>x86_64\<close> asset.\<close>

theorem get_release_no_matching_asset_witness:
  "get_release 1 asset_env (Github ''homebridge'' ''ffmpeg-for-homebridge'') ''latest''
      (Some ''x86_64'') False \<lparr>files = Map.empty, trace = []\<rparr>
   = (Return None,
      \<lparr>files = Map.empty,
       trace = [UrlOpen ''https://api.github.com/repos/homebridge/ffmpeg-for-homebridge/releases/latest'']\<rparr>)"
proof -
  let ?w = "\<lparr>files = Map.empty, trace = []\<rparr>"
  let ?g = "Github ''homebridge'' ''ffmpeg-for-homebridge''"
  let ?url = "''https://api.github.com/repos/homebridge/ffmpeg-for-homebridge/releases/latest''"
  let ?asset = "\<lparr>a_name = ''ffmpeg-alpine-arm64.tar.gz'',
                      a_browser_download_url = ''https://github.com/homebridge/ffmpeg-for-homebridge/releases/download/v2.1.1/ffmpeg-alpine-arm64.tar.gz''\<rparr>"
  let ?info = "\<lparr>ri_name = Some ''v2.1.1'', ri_tag_name = ''v2.1.1'',
                  ri_tarball_url = ''https://api.github.com/repos/homebridge/ffmpeg-for-homebridge/tarball/v2.1.1'',
                  ri_assets = Some [?asset]\<rparr>"
  let ?resp = "\<lparr>status = 200, link = None, body = JsonRelease ?info\<rparr>"
  have 1: "fetch_release_url 1 asset_env ?g ''latest'' ?w = (Return ?url, ?w)"
    by (simp add: fetch_release_url_def ret_def Github_def)
  have 2: "urlopen asset_env ?url = Inr ?resp"
    by (simp add: asset_env_def)
  have 3: "body ?resp = JsonRelease ?info" by simp
  have 4: "ri_assets ?info = Some [?asset]" by simp
  have 5: "[?asset] \<noteq> []" by simp
  have c: "\<not> contains ''x86_64'' ''ffmpeg-alpine-arm64.tar.gz''" by code_simp
  have 6: "\<forall>a\<in>set [?asset]. \<not> contains ''x86_64'' (a_name a)" using c by simp
  from get_release_no_matching_asset[OF 1 2 3 4 5 6, of False]
  show ?thesis by simp
qed

section \<open>The settings display\<close>








lemma prints_only_fun: "(\<And>w. m w = (r, w)) \<Longrightarrow> prints_only m"
  by (simp add: prints_only_def)


















text \<open>
  C7. A settings file that is not valid JSON is fatal: the handler of the failed read
  calls \<open>_print_color\<close> without its colour, so \<open>TypeError\<close> propagates out of
  \<open>_Config()\<close> before anything is printed, and the main block ends with it. (With that
  call repaired, the loop over the unbound \<open>install_conf\<close> would raise next.)
\<close>

theorem read_config_file_malformed_aborts:
  "fst (Config_init quiet_env \<lparr>files = [''/etc/wyze-bridge/install.json'' \<mapsto> ''{''], trace = []\<rparr>)
     = Raise (Exn TypeError ''_print_color() missing 1 required positional argument: color'')
   \<and> trace (snd (Config_init quiet_env
         \<lparr>files = [''/etc/wyze-bridge/install.json'' \<mapsto> ''{''], trace = []\<rparr>)) = []
   \<and> fst (main_prologue quiet_env
         \<lparr>euid = 0, version_info = (3, 11, 4), action = Install, flags = []\<rparr>
         \<lparr>files = [''/etc/wyze-bridge/install.json'' \<mapsto> ''{''], trace = []\<rparr>)
     = Raise (Exn TypeError ''_print_color() missing 1 required positional argument: color'')"
  by code_simp




end
